theory Spec2Isabelle
  imports Complex_Main
begin

section \<open>The magnetron solver: data model and numeric conventions\<close>

text \<open>
  The program is one class, \<open>MagnetronSolver\<close>, holding six scalars, with two pure
  computations (\<open>calculate_solenoid_current\<close>, \<open>electron_trajectory\<close>), two plotting
  methods and a command-line entry point.

  Numbers: the source computes in IEEE double precision. The embedding computes in the
  real numbers, so every statement below is about the formulas under exact arithmetic;
  rounding, overflow and underflow are not modelled, and \<open>np.pi\<close> is the real
  number \<open>pi\<close>. What numpy does where a formula has no real value is modelled
  explicitly: a square root of a negative number and a division by zero give a non-finite
  result (\<open>nan\<close>, \<open>inf\<close>) together with a RuntimeWarning, and every later
  operation on such a value stays non-finite. A non-finite result is the left summand of
  a sum type, carrying the first operation that produced it.
\<close>

record MagnetronSolver =
  D :: real
  n :: real
  Ra :: real
  Rk :: real
  U1 :: real
  U2 :: real

text \<open>
  Modelled from the spec: the three constants imported from \<open>scipy.constants\<close>
  (elementary charge, electron mass, vacuum permeability), which are not part of the
  repository. The spec gives them as \<open>e = 1.60218e-19\<close>, \<open>m_e = 9.10938e-31\<close> and
  \<open>mu_0 = 4 pi 1e-7\<close>. The proofs below use only that the three are positive.
\<close>

definition e :: real where
  "e = 1.60218 / 10 ^ 19"

definition m_e :: real where
  "m_e = 9.10938 / 10 ^ 31"

definition mu_0 :: real where
  "mu_0 = 4 * pi / 10 ^ 7"

text \<open>
  The two places of \<open>calculate_solenoid_current\<close> that divide by a value computed
  from the configuration: the orbit radius \<open>r\<close> and the product \<open>mu_0 * n\<close>.
\<close>

datatype divisor = Orbit_Radius | Winding

datatype np_fault = Invalid_Sqrt | Divide_By_Zero divisor

definition np_sqrt :: "real \<Rightarrow> np_fault + real" where
  "np_sqrt v = (if v < 0 then Inl Invalid_Sqrt else Inr (sqrt v))"

definition np_divide :: "divisor \<Rightarrow> real \<Rightarrow> real \<Rightarrow> np_fault + real" where
  "np_divide site a b = (if b = 0 then Inl (Divide_By_Zero site) else Inr (a / b))"

section \<open>The current calculator\<close>

text \<open>
  \<^verbatim>\<open>
  def calculate_solenoid_current(self, U):
      r = (self.Ra - self.Rk) / 2
      B = np.sqrt(2 * U * m_e / e) / r
      Ic = B / (mu_0 * self.n)
      return Ic
  \<close>
  The divisions by the literal \<open>2\<close> and by the positive constant \<open>e\<close> cannot
  fail and are plain divisions.
\<close>

definition calculate_solenoid_current :: "MagnetronSolver \<Rightarrow> real \<Rightarrow> np_fault + real" where
  "calculate_solenoid_current self U =
     (let r = (Ra self - Rk self) / 2 in
      case np_sqrt (2 * U * m_e / e) of
        Inl w \<Rightarrow> Inl w
      | Inr s \<Rightarrow>
          (case np_divide Orbit_Radius s r of
             Inl w \<Rightarrow> Inl w
           | Inr B \<Rightarrow> np_divide Winding B (mu_0 * n self)))"

text \<open>
  The closed form of the specification, written from its words:
  \<open>Ic = sqrt(2 U m_e / e) / ((Ra - Rk) / 2) / (mu_0 n)\<close>.
\<close>

definition reference_current :: "MagnetronSolver \<Rightarrow> real \<Rightarrow> real" where
  "reference_current self U =
     sqrt (2 * U * m_e / e) / ((Ra self - Rk self) / 2) / (mu_0 * n self)"

section \<open>The trajectory generator\<close>

text \<open>
  \<open>np.linspace(start, stop, num)\<close> with its default \<open>endpoint=True\<close>, after numpy's
  implementation: a negative \<open>num\<close> raises ValueError; otherwise the samples are
  \<open>arange(0, num)\<close> scaled by the step \<open>(stop - start) / (num - 1)\<close> and shifted
  by \<open>start\<close>, and for \<open>num > 1\<close> the last sample is overwritten with \<open>stop\<close>.
\<close>

datatype py_exception = ValueError

definition linspace :: "real \<Rightarrow> real \<Rightarrow> int \<Rightarrow> py_exception + real list" where
  "linspace start stop num =
     (if num < 0 then Inl ValueError
      else
        (let ndiv = num - 1;
             delta = stop - start;
             y = map real_of_int [0..num - 1];
             y = (if ndiv > 0 then
                    (let step = delta / real_of_int ndiv in
                     if step = 0 then map (\<lambda>v. v / real_of_int ndiv * delta) y
                     else map (\<lambda>v. v * step) y)
                  else map (\<lambda>v. v * delta) y);
             y = map (\<lambda>v. v + start) y;
             y = (if num > 1 then y[nat (num - 1) := stop] else y)
         in Inr y))"

text \<open>
  \<^verbatim>\<open>
  def electron_trajectory(self, U, Ic, num_points=1000):
      B = mu_0 * self.n * Ic
      r = (self.Ra - self.Rk) / 2
      theta = np.linspace(0, 2 * np.pi, num_points)
      x = (self.Rk + r) * np.cos(theta)
      y = (self.Rk + r) * np.sin(theta)
      return x, y
  \<close>
  The argument \<open>Ic\<close> is a numpy float, possibly non-finite (the entry point passes
  the result of \<open>calculate_solenoid_current\<close>); the product \<open>B\<close> is non-finite
  when \<open>Ic\<close> is.
\<close>

definition electron_trajectory ::
  "MagnetronSolver \<Rightarrow> real \<Rightarrow> np_fault + real \<Rightarrow> int \<Rightarrow> py_exception + real list \<times> real list" where
  "electron_trajectory self U Ic num_points =
     (let B = map_sum id (\<lambda>v. mu_0 * n self * v) Ic;
          r = (Ra self - Rk self) / 2
      in case linspace 0 (2 * pi) num_points of
           Inl ex \<Rightarrow> Inl ex
         | Inr theta \<Rightarrow>
             (let x = map (\<lambda>t. (Rk self + r) * cos t) theta;
                  y = map (\<lambda>t. (Rk self + r) * sin t) theta
              in Inr (x, y)))"

text \<open>The call without a point count: \<open>num_points=1000\<close>.\<close>

definition electron_trajectory_default ::
  "MagnetronSolver \<Rightarrow> real \<Rightarrow> np_fault + real \<Rightarrow> py_exception + real list \<times> real list" where
  "electron_trajectory_default self U Ic = electron_trajectory self U Ic 1000"

text \<open>
  A point \<open>(x, y)\<close> on the circle of radius \<open>rad\<close> around \<open>(cx, cy)\<close>.
\<close>

definition on_circle :: "real \<Rightarrow> real \<Rightarrow> real \<Rightarrow> real \<times> real \<Rightarrow> bool" where
  "on_circle cx cy rad p = ((fst p - cx)\<^sup>2 + (snd p - cy)\<^sup>2 = rad\<^sup>2)"


section \<open>Output: the console and the figures\<close>

text \<open>
  An f-string is a sequence of segments: literal text (a list of Unicode code points) and
  formatted values. A float is formatted by \<open>str\<close> (\<open>{U}\<close>) or in fixed-point
  notation with a number of decimals (\<open>{Ic:.4f}\<close>); the conversion of the value to
  decimal digits is left to the segment. The literal texts of the source are Russian and
  are given by their code points (1040 to 1103 are Cyrillic letters): the printed line
  reads, in English, "Solenoid current for U=", the voltage, " V: ", the current, " A".
\<close>

datatype segment =
  Text "nat list"
  | Float_Str real
  | Float_Fixed nat "np_fault + real"

datatype figure =
  Trajectory_Figure "real list" "real list" "segment list"
  | Current_Figure "real list" "(np_fault + real) list"

record world =
  stdout :: "segment list list"
  shown :: "figure list"

definition print :: "segment list \<Rightarrow> world \<Rightarrow> world" where
  "print line w = w\<lparr>stdout := stdout w @ [line]\<rparr>"

definition plt_show :: "figure \<Rightarrow> world \<Rightarrow> world" where
  "plt_show fig w = w\<lparr>shown := shown w @ [fig]\<rparr>"

text \<open>
  \<open>plot_trajectory(self, U, Ic)\<close> draws the curve of \<open>electron_trajectory(U, Ic)\<close>
  under the title \<^verbatim>\<open>f'... U={U} ..., Ic={Ic:.2f} ...'\<close> and shows the figure.
\<close>

definition plot_trajectory ::
  "MagnetronSolver \<Rightarrow> real \<Rightarrow> np_fault + real \<Rightarrow> world \<Rightarrow> py_exception + world" where
  "plot_trajectory self U Ic w =
     (case electron_trajectory_default self U Ic of
        Inl ex \<Rightarrow> Inl ex
      | Inr (x, y) \<Rightarrow>
          Inr (plt_show
            (Trajectory_Figure x y
              [Text [1058, 1088, 1072, 1077, 1082, 1090, 1086, 1088, 1080, 1103, 32, 1101,
                     1083, 1077, 1082, 1090, 1088, 1086, 1085, 1072, 32, 1087, 1088, 1080,
                     32, 85, 61],
               Float_Str U,
               Text [32, 1042, 44, 32, 73, 99, 61],
               Float_Fixed 2 Ic,
               Text [32, 1040]]) w))"

text \<open>
  \<open>plot_ic_vs_u(self, num_points=100)\<close> samples the current over
  \<open>np.linspace(U1, U2, num_points)\<close>; \<open>max(Ic_values)\<close> raises ValueError on an
  empty list.
\<close>

definition plot_ic_vs_u :: "MagnetronSolver \<Rightarrow> int \<Rightarrow> world \<Rightarrow> py_exception + world" where
  "plot_ic_vs_u self num_points w =
     (case linspace (U1 self) (U2 self) num_points of
        Inl ex \<Rightarrow> Inl ex
      | Inr U_values \<Rightarrow>
          (let Ic_values = map (calculate_solenoid_current self) U_values in
           if Ic_values = [] then Inl ValueError
           else Inr (plt_show (Current_Figure U_values Ic_values) w)))"

text \<open>
  The entry point:
  \<^verbatim>\<open>
  solver = MagnetronSolver(0.1, 1000, 0.03, 0.01, 100, 1000)
  U = (U1 + U2) / 2
  Ic = solver.calculate_solenoid_current(U)
  print(f"... U={U} ...: {Ic:.4f} ...")
  solver.plot_trajectory(U, Ic)
  solver.plot_ic_vs_u()
  \<close>
\<close>

definition solver :: MagnetronSolver where
  "solver = \<lparr>D = 0.1, n = 1000, Ra = 0.03, Rk = 0.01, U1 = 100, U2 = 1000\<rparr>"

definition main :: "world \<Rightarrow> py_exception + world" where
  "main w =
     (let U = (U1 solver + U2 solver) / 2;
          Ic = calculate_solenoid_current solver U;
          w = print
                [Text [1058, 1086, 1082, 32, 1089, 1086, 1083, 1077, 1085, 1086, 1080, 1076,
                       1072, 32, 1076, 1083, 1103, 32, 85, 61],
                 Float_Str U,
                 Text [32, 1042, 58, 32],
                 Float_Fixed 4 Ic,
                 Text [32, 1040]] w
      in case plot_trajectory solver U Ic w of
           Inl ex \<Rightarrow> Inl ex
         | Inr w \<Rightarrow> plot_ic_vs_u solver 100 w)"

section \<open>Facts about the constants and the current calculator\<close>

lemma e_pos: "0 < e"
  by (simp add: e_def)

lemma m_e_pos: "0 < m_e"
  by (simp add: m_e_def)

lemma mu_0_pos: "0 < mu_0"
  by (simp add: mu_0_def)

lemma mass_charge_ratio_pos: "0 < m_e / e"
  using e_pos m_e_pos by simp

lemma radicand_negative_iff: "2 * U * m_e / e < 0 \<longleftrightarrow> U < 0"
proof -
  have "2 * U * m_e / e = U * (2 * (m_e / e))"
    by simp
  moreover have "0 < 2 * (m_e / e)"
    using mass_charge_ratio_pos by simp
  ultimately show ?thesis
    by (simp only: mult_less_0_iff) auto
qed

lemma winding_term_zero_iff: "mu_0 * n self = 0 \<longleftrightarrow> n self = 0"
  using mu_0_pos by simp

text \<open>
  The result of the calculator in every case: the order of the tests is the order in which
  the source evaluates the square root and the two divisions.
\<close>

lemma calculate_solenoid_current_cases:
  "calculate_solenoid_current self U =
     (if U < 0 then Inl Invalid_Sqrt
      else if Ra self = Rk self then Inl (Divide_By_Zero Orbit_Radius)
      else if n self = 0 then Inl (Divide_By_Zero Winding)
      else Inr (reference_current self U))"
  using radicand_negative_iff [of U] winding_term_zero_iff [of self]
  by (simp add: calculate_solenoid_current_def reference_current_def np_sqrt_def
      np_divide_def Let_def)





lemma reference_current_double_n:
  "reference_current (self\<lparr>n := 2 * n self\<rparr>) U = reference_current self U / 2"
  by (simp add: reference_current_def)

lemma reference_current_double_r:
  assumes "Ra self' - Rk self' = 2 * (Ra self - Rk self)" and "n self' = n self"
  shows "reference_current self' U = reference_current self U / 2"
proof -
  define d where "d = Ra self - Rk self"
  have "reference_current self' U = sqrt (2 * U * m_e / e) / (2 * d / 2) / (mu_0 * n self)"
    unfolding reference_current_def d_def by (simp only: assms)
  also have "\<dots> = sqrt (2 * U * m_e / e) / (d / 2) / (mu_0 * n self) / 2"
    by simp
  finally show ?thesis
    unfolding reference_current_def d_def .
qed

lemma solver_midpoint: "(U1 solver + U2 solver) / 2 = 550"
  by (simp add: solver_def)

lemma solver_current: "calculate_solenoid_current solver 550 = Inr (reference_current solver 550)"
  by (simp add: calculate_solenoid_current_cases solver_def)


section \<open>Facts about the trajectory generator\<close>


lemma linspace_length:
  assumes "0 \<le> num"
  shows "\<exists>ys. linspace a b num = Inr ys \<and> length ys = nat num"
  using assms by (simp add: linspace_def Let_def)



lemma linspace_three: "linspace 0 (2 * pi) 3 = Inr [0, pi, 2 * pi]"
  by (simp add: linspace_def Let_def upto.simps)

text \<open>
  The generator without its dead assignment: \<open>B\<close> is never read, and
  \<open>Rk + (Ra - Rk) / 2\<close> is \<open>(Ra + Rk) / 2\<close>.
\<close>

lemma electron_trajectory_cases:
  "electron_trajectory self U Ic num_points =
     (case linspace 0 (2 * pi) num_points of
        Inl ex \<Rightarrow> Inl ex
      | Inr theta \<Rightarrow>
          Inr (map (\<lambda>t. (Ra self + Rk self) / 2 * cos t) theta,
               map (\<lambda>t. (Ra self + Rk self) / 2 * sin t) theta))"
proof -
  have "Rk self + (Ra self - Rk self) / 2 = (Ra self + Rk self) / 2"
    by (simp add: field_simps)
  then show ?thesis
    by (simp add: electron_trajectory_def Let_def split: sum.splits)
qed

lemma electron_trajectory_length:
  assumes "0 \<le> num_points"
  shows "\<exists>xs ys. electron_trajectory self U Ic num_points = Inr (xs, ys) \<and>
           length xs = nat num_points \<and> length ys = nat num_points"
proof -
  obtain theta where "linspace 0 (2 * pi) num_points = Inr theta" "length theta = nat num_points"
    using linspace_length [OF assms] by blast
  then show ?thesis
    by (simp add: electron_trajectory_cases)
qed


lemma electron_trajectory_three:
  "electron_trajectory solver U Ic 3 = Inr ([1 / 50, - (1 / 50), 1 / 50], [0, 0, 0])"
  by (simp add: electron_trajectory_cases linspace_three solver_def)





text \<open>
  Two points \<open>0.04\<close> apart do not fit on any circle of radius \<open>0.01\<close>.
\<close>

lemma no_small_circle_through_antipodes:
  assumes "on_circle cx cy (1 / 100) (1 / 50, 0)" and "on_circle cx cy (1 / 100) (- (1 / 50), 0)"
  shows False
proof -
  have a: "(1 / 50 - cx)\<^sup>2 + cy\<^sup>2 = (1 / 100)\<^sup>2"
    using assms(1) by (simp add: on_circle_def)
  have b: "(- (1 / 50) - cx)\<^sup>2 + cy\<^sup>2 = (1 / 100)\<^sup>2"
    using assms(2) by (simp add: on_circle_def)
  have "(1 / 50 - cx)\<^sup>2 = (- (1 / 50) - cx)\<^sup>2"
    using a b by simp
  then have "cx = 0"
    by (simp add: power2_eq_square algebra_simps)
  then have "cy\<^sup>2 = (1 / 100)\<^sup>2 - (1 / 50)\<^sup>2"
    using a by simp
  then have "cy\<^sup>2 < 0"
    by (simp add: power2_eq_square)
  then show False
    using zero_le_power2 [of cy] by simp
qed

section \<open>Facts about the plotting methods\<close>

lemma plot_trajectory_stdout:
  "\<exists>w'. plot_trajectory self U Ic w = Inr w' \<and> stdout w' = stdout w"
proof -
  obtain x y where "electron_trajectory_default self U Ic = Inr (x, y)"
    using electron_trajectory_length [of 1000 self U Ic]
    by (auto simp: electron_trajectory_default_def)
  then show ?thesis
    by (simp add: plot_trajectory_def plt_show_def)
qed

lemma plot_ic_vs_u_stdout:
  assumes "0 < num_points"
  shows "\<exists>w'. plot_ic_vs_u self num_points w = Inr w' \<and> stdout w' = stdout w"
proof -
  obtain U_values where "linspace (U1 self) (U2 self) num_points = Inr U_values"
    "length U_values = nat num_points"
    using linspace_length [of num_points] assms by fastforce
  moreover from this assms have "U_values \<noteq> []"
    by auto
  ultimately show ?thesis
    by (simp add: plot_ic_vs_u_def plt_show_def Let_def)
qed

section \<open>Claims about the current calculator\<close>

text \<open>
  C1. For every voltage and every configuration the value returned by
  \<open>calculate_solenoid_current\<close> is the closed form
  \<open>sqrt(2 U m_e / e) / ((Ra - Rk) / 2) / (mu_0 n)\<close> of the specification
  (\<open>reference_current\<close>): whenever that closed form has a value (\<open>U\<close> not negative,
  \<open>Ra\<close> different from \<open>Rk\<close>, \<open>n\<close> not zero) the function returns exactly it,
  and in each remaining case the result is non-finite because of the very operation at
  which the closed form has no value.
\<close>

theorem calculate_solenoid_current_closed_form:
  "calculate_solenoid_current self U =
     (if U < 0 then Inl Invalid_Sqrt
      else if Ra self = Rk self then Inl (Divide_By_Zero Orbit_Radius)
      else if n self = 0 then Inl (Divide_By_Zero Winding)
      else Inr (reference_current self U))"
proof -
  have sqrt_ok: "np_sqrt (2 * U * m_e / e) =
      (if U < 0 then Inl Invalid_Sqrt else Inr (sqrt (2 * U * m_e / e)))"
    using radicand_negative_iff [of U] by (simp add: np_sqrt_def)
  show ?thesis
    unfolding calculate_solenoid_current_def Let_def sqrt_ok
    using winding_term_zero_iff [of self]
    by (simp add: np_divide_def reference_current_def)
qed

theorem calculate_solenoid_current_closed_form_witness:
  "calculate_solenoid_current solver 550 =
     Inr (sqrt (2 * 550 * m_e / e) / ((0.03 - 0.01) / 2) / (mu_0 * 1000))"
  using calculate_solenoid_current_closed_form [of solver 550]
  by (simp add: solver_def reference_current_def)




text \<open>
  C4. The current is inversely proportional to the winding density and to the orbit
  radius: for every voltage and every configuration, doubling \<open>n\<close> halves the returned
  current, and so does doubling \<open>Ra - Rk\<close> (hence \<open>r\<close>) with \<open>n\<close> kept; a
  non-finite result stays the same non-finite result.
\<close>

theorem current_inverse_proportional:
  "calculate_solenoid_current (self\<lparr>n := 2 * n self\<rparr>) U =
     map_sum id (\<lambda>Ic. Ic / 2) (calculate_solenoid_current self U) \<and>
   (Ra self' - Rk self' = 2 * (Ra self - Rk self) \<and> n self' = n self \<longrightarrow>
      calculate_solenoid_current self' U =
        map_sum id (\<lambda>Ic. Ic / 2) (calculate_solenoid_current self U))"
proof (intro conjI impI)
  show "calculate_solenoid_current (self\<lparr>n := 2 * n self\<rparr>) U =
     map_sum id (\<lambda>Ic. Ic / 2) (calculate_solenoid_current self U)"
    by (simp add: calculate_solenoid_current_cases reference_current_double_n)
next
  assume h: "Ra self' - Rk self' = 2 * (Ra self - Rk self) \<and> n self' = n self"
  then have "Ra self' = Rk self' \<longleftrightarrow> Ra self = Rk self"
    by auto
  then show "calculate_solenoid_current self' U =
        map_sum id (\<lambda>Ic. Ic / 2) (calculate_solenoid_current self U)"
    using h by (simp add: calculate_solenoid_current_cases reference_current_double_r)
qed

theorem current_inverse_proportional_witness:
  "calculate_solenoid_current (solver\<lparr>n := 2000\<rparr>) 550 =
     map_sum id (\<lambda>Ic. Ic / 2) (calculate_solenoid_current solver 550) \<and>
   calculate_solenoid_current (solver\<lparr>Ra := 0.05\<rparr>) 550 =
     map_sum id (\<lambda>Ic. Ic / 2) (calculate_solenoid_current solver 550) \<and>
   calculate_solenoid_current solver 550 = Inr (reference_current solver 550)"
  using current_inverse_proportional [of solver 550 "solver\<lparr>Ra := 0.05\<rparr>"]
  by (simp add: solver_def calculate_solenoid_current_cases)

text \<open>
  C7. The guarded division by the orbit radius \<open>r = (Ra - Rk) / 2\<close> takes its
  division-by-zero branch exactly when \<open>Ra = Rk\<close>, whatever the dividend. For the whole
  function: it ends in that branch exactly when \<open>Ra = Rk\<close> and the square root before it
  succeeded (\<open>U\<close> not negative); so with \<open>Ra\<close> different from \<open>Rk\<close> the branch is
  unreachable.
\<close>

theorem orbit_division_by_zero_iff:
  "(np_divide Orbit_Radius s ((Ra self - Rk self) / 2) = Inl (Divide_By_Zero Orbit_Radius)
      \<longleftrightarrow> Ra self = Rk self) \<and>
   (calculate_solenoid_current self U = Inl (Divide_By_Zero Orbit_Radius)
      \<longleftrightarrow> Ra self = Rk self \<and> 0 \<le> U)"
  by (auto simp: np_divide_def calculate_solenoid_current_cases)

theorem orbit_division_by_zero_iff_witness:
  "calculate_solenoid_current (solver\<lparr>Ra := 0.01\<rparr>) 550 = Inl (Divide_By_Zero Orbit_Radius) \<and>
   calculate_solenoid_current solver 550 \<noteq> Inl (Divide_By_Zero Orbit_Radius)"
  using orbit_division_by_zero_iff [of 1 "solver\<lparr>Ra := 0.01\<rparr>" 550]
    orbit_division_by_zero_iff [of 1 solver 550]
  by (simp add: solver_def)

section \<open>Claims about the trajectory generator\<close>

text \<open>
  C2. The claim: every generated point lies on one circle of radius
  \<open>r = (Ra - Rk) / 2\<close> whose centre is at distance \<open>Rk + r\<close> from the origin. The
  source's comments say the same (\<open>r\<close> is the fixed radius, \<open>Rk + r\<close> the centre of the
  circle), but the code multiplies \<open>cos\<close> and \<open>sin\<close> by \<open>Rk + r\<close>. For the
  configuration of the entry point and three samples the generated points are
  \<open>(0.02, 0)\<close>, \<open>(-0.02, 0)\<close>, \<open>(0.02, 0)\<close>, and no circle of radius
  \<open>r = 0.01\<close>, whatever its centre, passes through them.
\<close>

theorem trajectory_off_orbit_circle:
  "electron_trajectory solver U Ic 3 = Inr ([1 / 50, - (1 / 50), 1 / 50], [0, 0, 0]) \<and>
   (Ra solver - Rk solver) / 2 = 1 / 100 \<and>
   (\<nexists>cx cy. list_all (on_circle cx cy ((Ra solver - Rk solver) / 2))
               (zip [1 / 50, - (1 / 50), 1 / 50] [0, 0, 0]))"
proof -
  have r: "(Ra solver - Rk solver) / 2 = 1 / 100"
    by (simp add: solver_def)
  have "\<not> list_all (on_circle cx cy (1 / 100)) (zip [1 / 50, - (1 / 50), 1 / 50] [0, 0, 0])"
    for cx cy
    using no_small_circle_through_antipodes [of cx cy] by auto
  then have "\<nexists>cx cy. list_all (on_circle cx cy ((Ra solver - Rk solver) / 2))
               (zip [1 / 50, - (1 / 50), 1 / 50] [0, 0, 0])"
    unfolding r by blast
  then show ?thesis
    using electron_trajectory_three [of U Ic] r by blast
qed






text \<open>
  C9. The returned sequences depend on neither \<open>U\<close> nor \<open>Ic\<close>: for every
  configuration and point count, any two argument pairs give the same result (the same
  sequences, or the same exception). The flux density recomputed from \<open>Ic\<close> is never
  read.
\<close>

theorem trajectory_ignores_voltage_and_current:
  "electron_trajectory self U Ic num_points = electron_trajectory self U' Ic' num_points"
  by (simp add: electron_trajectory_cases)



section \<open>The claim about the entry point\<close>

text \<open>
  C8. Started with an empty console, the entry point ends normally and has printed exactly
  one line: the literal text of the f-string around the voltage \<open>U = (U1 + U2) / 2 = 550\<close>
  formatted by \<open>str\<close> and the current \<open>calculate_solenoid_current(U)\<close>, a finite
  number, formatted with four decimals. The two plotting calls print nothing.
\<close>

theorem main_prints_one_line:
  "\<exists>w'. main \<lparr>stdout = [], shown = []\<rparr> = Inr w' \<and>
     stdout w' =
       [[Text [1058, 1086, 1082, 32, 1089, 1086, 1083, 1077, 1085, 1086, 1080, 1076,
               1072, 32, 1076, 1083, 1103, 32, 85, 61],
         Float_Str ((U1 solver + U2 solver) / 2),
         Text [32, 1042, 58, 32],
         Float_Fixed 4 (calculate_solenoid_current solver ((U1 solver + U2 solver) / 2)),
         Text [32, 1040]]] \<and>
     (U1 solver + U2 solver) / 2 = 550 \<and>
     calculate_solenoid_current solver ((U1 solver + U2 solver) / 2) =
       Inr (reference_current solver 550)"
proof -
  let ?U = "(U1 solver + U2 solver) / 2"
  let ?Ic = "calculate_solenoid_current solver ?U"
  let ?line = "[Text [1058, 1086, 1082, 32, 1089, 1086, 1083, 1077, 1085, 1086, 1080, 1076,
               1072, 32, 1076, 1083, 1103, 32, 85, 61],
         Float_Str ?U, Text [32, 1042, 58, 32], Float_Fixed 4 ?Ic, Text [32, 1040]]"
  let ?w1 = "print ?line \<lparr>stdout = [], shown = []\<rparr>"
  have s1: "stdout ?w1 = [?line]"
    by (simp add: print_def)
  obtain w2 where w2: "plot_trajectory solver ?U ?Ic ?w1 = Inr w2" "stdout w2 = stdout ?w1"
    using plot_trajectory_stdout by blast
  obtain w3 where w3: "plot_ic_vs_u solver 100 w2 = Inr w3" "stdout w3 = stdout w2"
    using plot_ic_vs_u_stdout [of 100 solver w2] by auto
  have "main \<lparr>stdout = [], shown = []\<rparr> = Inr w3"
    unfolding main_def Let_def using w2(1) w3(1) by simp
  moreover have "stdout w3 = [?line]"
    using w3(2) w2(2) s1 by simp
  ultimately show ?thesis
    using solver_midpoint solver_current by simp
qed

end
